theory Spec2Isabelle
  imports Main "HOL-Library.Word" "HOL-Library.AList"
begin

section \<open>Values of the decoded feed\<close>

text \<open>
  The transit feed is decoded by a protobuf library. A 64-bit field such as the arrival
  time reaches \<open>server.js\<close> either as a plain JavaScript number or as a wrapped value
  with the fields \<open>low\<close>, \<open>high\<close> (signed 32-bit halves) and \<open>unsigned\<close>.
  Epoch seconds are integers; JavaScript numbers are modelled as \<open>int\<close>, which is exact
  for every integer of magnitude below \<open>2 ^ 53\<close>.
\<close>

datatype js_long = Long (low: "32 word") (high: "32 word") (unsigned: bool)

datatype time_val = Num int | LongObj js_long

text \<open>
  Numeric coercion of a value used in a subtraction. A number is itself; a wrapped value
  has no \<open>valueOf\<close> of its own and is converted through its decimal \<open>toString\<close>,
  which prints the whole 64-bit value.
\<close>

definition longValue :: "js_long \<Rightarrow> int" where
  "longValue l =
     (if unsigned l then uint (high l) * 2 ^ 32 + uint (low l)
      else sint (high l) * 2 ^ 32 + uint (low l))"

fun toNumber :: "time_val \<Rightarrow> int" where
  "toNumber (Num n) = n"
| "toNumber (LongObj l) = longValue l"

record stop_time_event =
  time :: "time_val option"

record stop_time_update =
  arrival :: "stop_time_event option"
  stopId :: "string option"

record trip_descriptor =
  routeId :: "string option"

record trip_update =
  trip :: "trip_descriptor option"
  stopTimeUpdate :: "stop_time_update list option"

record feed_entity =
  tripUpdate :: "trip_update option"

section \<open>Configuration constants\<close>

definition ROUTE_ID :: string where
  "ROUTE_ID = ''F''"

definition STOP_QUEENS :: string where
  "STOP_QUEENS = ''D15N''"

definition STOP_BROOKLYN :: string where
  "STOP_BROOKLYN = ''D15S''"

section \<open>JavaScript primitives used by the pipeline\<close>

text \<open>Decimal rendering of a non-negative integer, as a template literal prints it.\<close>

definition digitChar :: "nat \<Rightarrow> char" where
  "digitChar d = ''0123456789'' ! d"

fun showNat :: "nat \<Rightarrow> string" where
  "showNat n =
     (if n < 10 then [digitChar n]
      else showNat (n div 10) @ [digitChar (n mod 10)])"

declare showNat.simps [simp del]

text \<open>
  \<open>Math.round(d / 60)\<close> for an integer \<open>d\<close>: the nearest integer, a half rounded
  towards plus infinity. On integers this is \<open>(d + 30) div 60\<close> with flooring division.
\<close>

definition roundDiv60 :: "int \<Rightarrow> int" where
  "roundDiv60 d = (d + 30) div 60"

text \<open>\<open>stu.arrival?.time\<close>: undefined when the arrival or its time is absent.\<close>

definition arrivalTimeOf :: "stop_time_update \<Rightarrow> time_val option" where
  "arrivalTimeOf stu = (case arrival stu of None \<Rightarrow> None | Some a \<Rightarrow> time a)"

text \<open>
  Truthiness of a present value: the number 0 is falsy, every object is truthy, the empty
  string is falsy. An absent field reads as undefined, which is falsy.
\<close>

fun truthyTime :: "time_val \<Rightarrow> bool" where
  "truthyTime (Num n) = (n \<noteq> 0)"
| "truthyTime (LongObj l) = True"

fun truthyString :: "string option \<Rightarrow> bool" where
  "truthyString None = False"
| "truthyString (Some s) = (s \<noteq> [])"

text \<open>\<open>a || b\<close> on strings: \<open>a\<close> when it is truthy, else \<open>b\<close>.\<close>

fun orElse :: "string option \<Rightarrow> string \<Rightarrow> string" where
  "orElse None d = d"
| "orElse (Some s) d = (if s \<noteq> [] then s else d)"

text \<open>
  \<open>stu.arrival.time.low || stu.arrival.time\<close>: a number has no \<open>low\<close>, so the number
  itself results; a wrapped value yields its signed low half unless that is 0, in which
  case the wrapped value itself results.
\<close>

fun arrivalEpochOf :: "time_val \<Rightarrow> time_val" where
  "arrivalEpochOf (Num n) = Num n"
| "arrivalEpochOf (LongObj l) = (if sint (low l) \<noteq> 0 then Num (sint (low l)) else LongObj l)"

definition minutesAwayOf :: "int \<Rightarrow> time_val \<Rightarrow> int" where
  "minutesAwayOf now t = roundDiv60 (toNumber (arrivalEpochOf t) - now)"

section \<open>Arrival selector\<close>

text \<open>
  A catalog item is the object \<open>{ minutesAway }\<close>; an arrival item has the same field
  and \<open>arrivalTime\<close>.
\<close>

record catalog_item =
  minutesAway :: string

record arrival_item = catalog_item +
  arrivalTime :: time_val

record direction_arrivals =
  nextThreeTrains :: "arrival_item list"

record train_data =
  queensBound :: direction_arrivals
  brooklynBound :: direction_arrivals

datatype js_error = Error string

datatype feed_outcome = FeedFailed string | FeedDecoded "feed_entity list"

text \<open>The two arrays the callbacks push to.\<close>

record buckets =
  queensArrivals :: "arrival_item list"
  brooklynArrivals :: "arrival_item list"

definition labelOf :: "int \<Rightarrow> string" where
  "labelOf m = (if m \<le> 0 then ''Arriving'' else showNat (nat m) @ '' min'')"

text \<open>Lines 223 and 224: the item is pushed to the array of each stop it matches.\<close>

definition pushByStop :: "string option \<Rightarrow> arrival_item \<Rightarrow> buckets \<Rightarrow> buckets" where
  "pushByStop sid item bk =
     (let bk1 = (if sid = Some STOP_QUEENS
                 then bk\<lparr>queensArrivals := queensArrivals bk @ [item]\<rparr> else bk)
      in (if sid = Some STOP_BROOKLYN
          then bk1\<lparr>brooklynArrivals := brooklynArrivals bk1 @ [item]\<rparr> else bk1))"

text \<open>The body of the inner \<open>forEach\<close> callback, for one stop-time update.\<close>

definition onStopTimeUpdate :: "int \<Rightarrow> buckets \<Rightarrow> stop_time_update \<Rightarrow> buckets" where
  "onStopTimeUpdate now bk stu =
     (case arrivalTimeOf stu of
        None \<Rightarrow> bk
      | Some t \<Rightarrow>
          if \<not> truthyTime t \<or> \<not> truthyString (stopId stu) then bk
          else
            let arrivalEpoch = arrivalEpochOf t;
                m = roundDiv60 (toNumber arrivalEpoch - now)
            in if m < 0 then bk
               else pushByStop (stopId stu)
                      \<lparr>minutesAway = labelOf m, arrivalTime = arrivalEpoch\<rparr> bk)"

text \<open>The body of the outer \<open>forEach\<close> callback, for one entity.\<close>

definition onEntity :: "int \<Rightarrow> buckets \<Rightarrow> feed_entity \<Rightarrow> buckets" where
  "onEntity now bk entity =
     (case tripUpdate entity of
        None \<Rightarrow> bk
      | Some tu \<Rightarrow>
          (case trip tu of
             None \<Rightarrow> bk
           | Some tr \<Rightarrow>
               if routeId tr \<noteq> Some ROUTE_ID then bk
               else (case stopTimeUpdate tu of
                       None \<Rightarrow> bk
                     | Some stus \<Rightarrow> foldl (onStopTimeUpdate now) bk stus)))"

text \<open>
  \<open>Array.prototype.sort\<close> with the comparator \<open>a.arrivalTime - b.arrivalTime\<close> is a
  stable sort on the numeric value of \<open>arrivalTime\<close>; \<open>slice(0, 3)\<close> keeps the
  first three elements.
\<close>

definition sortByArrival :: "arrival_item list \<Rightarrow> arrival_item list" where
  "sortByArrival xs = sort_key (\<lambda>a. toNumber (arrivalTime a)) xs"

definition fetchFTrainArrivals :: "feed_outcome \<Rightarrow> int \<Rightarrow> js_error + train_data" where
  "fetchFTrainArrivals feed now =
     (case feed of
        FeedFailed msg \<Rightarrow> Inl (Error (''Failed to fetch MTA data: '' @ msg))
      | FeedDecoded entities \<Rightarrow>
          let bk = foldl (onEntity now) \<lparr>queensArrivals = [], brooklynArrivals = []\<rparr> entities
          in Inr \<lparr>queensBound = \<lparr>nextThreeTrains = take 3 (sortByArrival (queensArrivals bk))\<rparr>,
                  brooklynBound = \<lparr>nextThreeTrains = take 3 (sortByArrival (brooklynArrivals bk))\<rparr>\<rparr>)"

section \<open>Console and catalog objects\<close>

text \<open>
  The console is the list of lines written so far. A line keeps the text of its message;
  leading line breaks and pictographs are left out.

  A JavaScript object with string keys is an association list in insertion order:
  assigning to an existing key replaces its value in place, assigning to a new key appends.
\<close>

type_synonym console = "string list"

type_synonym catalog_items = "(string \<times> catalog_item) list"

fun joinWith :: "string \<Rightarrow> string list \<Rightarrow> string" where
  "joinWith sep [] = []"
| "joinWith sep [x] = x"
| "joinWith sep (x # y # ys) = x @ sep @ joinWith sep (y # ys)"

section \<open>Catalog formatter\<close>

text \<open>
  The callback of \<open>nextThreeTrains.forEach((train, index) => ...)\<close>; the prefix is
  \<open>queens\<close> in the first loop and \<open>brooklyn\<close> in the second.
\<close>

definition putTrain ::
  "string \<Rightarrow> catalog_items \<times> console \<Rightarrow> nat \<times> arrival_item \<Rightarrow> catalog_items \<times> console" where
  "putTrain prefix st it =
     (let index = fst it; train = snd it;
          itemId = prefix @ ''_'' @ showNat (index + 1)
      in (AList.update itemId \<lparr>minutesAway = minutesAway train\<rparr> (fst st),
          snd st @ [itemId @ '': '' @ minutesAway train]))"

text \<open>The loop \<open>for (let i = length; i < 3; i++)\<close> that fills the empty slots.\<close>

function fillPlaceholders ::
  "string \<Rightarrow> nat \<Rightarrow> catalog_items \<times> console \<Rightarrow> catalog_items \<times> console" where
  "fillPlaceholders prefix i st =
     (if i < 3
      then let itemId = prefix @ ''_'' @ showNat (i + 1)
           in fillPlaceholders prefix (i + 1)
                (AList.update itemId \<lparr>minutesAway = ''--''\<rparr> (fst st),
                 snd st @ [itemId @ '': No train (placeholder)''])
      else st)"
  by pat_completeness auto
termination
  by (relation "measure (\<lambda>(prefix, i, st). 3 - i)") auto

declare fillPlaceholders.simps [simp del]

definition formatDirection ::
  "string \<Rightarrow> arrival_item list \<Rightarrow> catalog_items \<times> console \<Rightarrow> catalog_items \<times> console" where
  "formatDirection prefix trains st =
     fillPlaceholders prefix (length trains)
       (foldl (putTrain prefix) st (enumerate 0 trains))"

definition formatDataForNoviSign :: "train_data \<Rightarrow> console \<Rightarrow> catalog_items \<times> console" where
  "formatDataForNoviSign trainData con =
     (let st0 = ([], con @ [''Formatting data for NoviSign:'']);
          st1 = formatDirection ''queens'' (nextThreeTrains (queensBound trainData)) st0
      in formatDirection ''brooklyn'' (nextThreeTrains (brooklynBound trainData)) st1)"

section \<open>Catalog publisher\<close>

record novisign_config =
  studioDomain :: string
  apiKey :: "string option"
  catalogItemsGroup :: string

record http_request =
  url :: string
  headers :: "(string \<times> string option) list"
  requestBody :: catalog_items
  timeout :: nat

text \<open>
  The rejection of \<open>axios.post\<close> carries \<open>error.message\<close> and, when the endpoint
  answered, \<open>error.response\<close> with its status, its body and the body's \<open>message\<close>.
\<close>

record error_response =
  status :: nat
  dataText :: string
  dataMessage :: "string option"

datatype http_outcome =
  Fulfilled string
| Rejected string "error_response option"

record publish_result =
  success :: bool
  itemsUpdated :: nat
  timestamp :: string
  response :: string

text \<open>
  The world outside the pipeline: the console, the POST requests issued so far, and
  whether the recurring timer held in \<open>updateInterval\<close> is armed.
\<close>

record world =
  consoleLines :: console
  requests :: "http_request list"
  updateInterval :: bool

text \<open>
  The environment of the process: the configuration and the remote endpoint, which
  decides the outcome of the \<open>n\<close>-th POST request.
\<close>

record environment =
  NOVISIGN_CONFIG :: novisign_config
  postOutcome :: "nat \<Rightarrow> http_outcome"

definition consoleLog :: "string \<Rightarrow> world \<Rightarrow> world" where
  "consoleLog line w = w\<lparr>consoleLines := consoleLines w @ [line]\<rparr>"

definition axiosPost :: "environment \<Rightarrow> http_request \<Rightarrow> world \<Rightarrow> http_outcome \<times> world" where
  "axiosPost env req w =
     (postOutcome env (length (requests w)), w\<lparr>requests := requests w @ [req]\<rparr>)"

definition pushToNoviSign ::
  "environment \<Rightarrow> string \<Rightarrow> catalog_items \<Rightarrow> string option \<Rightarrow> world
     \<Rightarrow> (js_error + publish_result) \<times> world" where
  "pushToNoviSign env isoNow dataItems itemsGroup w =
     (let cfg = NOVISIGN_CONFIG env;
          targetGroup = orElse itemsGroup (catalogItemsGroup cfg);
          apiUrl = ''https://'' @ studioDomain cfg @ ''/catalog/items/'' @ targetGroup;
          w1 = consoleLog (''   URL: '' @ apiUrl) (consoleLog ''NoviSign API Call:'' w);
          hs = [(''Content-Type'', Some ''application/json''), (''X-API-KEY'', apiKey cfg)];
          w2 = consoleLog (''Items to update: '' @ showNat (length (map fst dataItems))) w1;
          w3 = consoleLog (''Item IDs: '' @ joinWith '', '' (map fst dataItems)) w2;
          req = \<lparr>url = apiUrl, headers = hs, requestBody = dataItems, timeout = 10000\<rparr>
      in case axiosPost env req w3 of
           (Fulfilled d, w4) \<Rightarrow>
             (Inr \<lparr>success = True, itemsUpdated = length (map fst dataItems),
                   timestamp = isoNow, response = d\<rparr>,
              consoleLog ''Success! Data pushed to NoviSign'' w4)
         | (Rejected msg resp, w4) \<Rightarrow>
             (let w5 = consoleLog (''NoviSign API Error: '' @ msg) w4
              in case resp of
                   Some r \<Rightarrow>
                     (Inl (Error (''NoviSign API error ('' @ showNat (status r) @ ''): '' @
                                  orElse (dataMessage r) msg)),
                      consoleLog (''Details: '' @ dataText r)
                        (consoleLog (''Status: '' @ showNat (status r)) w5))
                 | None \<Rightarrow> (Inl (Error (''Failed to push to NoviSign: '' @ msg)), w5)))"

section \<open>One cycle and the update scheduler\<close>

text \<open>
  What one cycle reads from outside: the outcome of fetching and decoding the feed, the
  clock in epoch seconds, and the clock as an ISO-8601 string.
\<close>

record cycle_input =
  feed :: feed_outcome
  nowSeconds :: int
  isoTime :: string

definition errorMessage :: "js_error \<Rightarrow> string" where
  "errorMessage e = (case e of Error m \<Rightarrow> m)"

definition fetchAndPushToNoviSign ::
  "environment \<Rightarrow> cycle_input \<Rightarrow> world \<Rightarrow> (js_error + publish_result) \<times> world" where
  "fetchAndPushToNoviSign env c w =
     (let w1 = consoleLog ''Fetching train data from MTA API...''
                 (consoleLog (replicate 60 CHR ''='') (consoleLog ''Starting NoviSign Update'' w))
      in case fetchFTrainArrivals (feed c) (nowSeconds c) of
           Inl e \<Rightarrow> (Inl e, consoleLog (''Workflow failed: '' @ errorMessage e) w1)
         | Inr trainData \<Rightarrow>
             (let w2 = consoleLog ''Formatting data for NoviSign...''
                         (consoleLog ''Data fetched successfully'' w1);
                  fmt = formatDataForNoviSign trainData (consoleLines w2);
                  w3 = consoleLog ''Pushing to NoviSign API...'' (w2\<lparr>consoleLines := snd fmt\<rparr>)
              in case pushToNoviSign env (isoTime c) (fst fmt) None w3 of
                   (Inl e, w4) \<Rightarrow> (Inl e, consoleLog (''Workflow failed: '' @ errorMessage e) w4)
                 | (Inr result, w4) \<Rightarrow>
                     (Inr result,
                      consoleLog (replicate 60 CHR ''='')
                        (consoleLog ''Workflow completed successfully!'' w4))))"

text \<open>
  \<open>fetchAndPushToNoviSign().catch(err => console.error(prefix, err.message))\<close>: the
  rejection is logged and goes no further.
\<close>

definition caughtCycle :: "string \<Rightarrow> environment \<Rightarrow> cycle_input \<Rightarrow> world \<Rightarrow> world" where
  "caughtCycle prefix env c w =
     (case fetchAndPushToNoviSign env c w of
        (Inl e, w1) \<Rightarrow> consoleLog (prefix @ '' '' @ errorMessage e) w1
      | (Inr result, w1) \<Rightarrow> w1)"

definition AutoUpdater :: "environment \<Rightarrow> cycle_input \<Rightarrow> world \<Rightarrow> world" where
  "AutoUpdater env c w =
     (let w1 = consoleLog ''Interval: Every 30 seconds''
                 (consoleLog ''Starting auto-update service...'' w);
          w2 = caughtCycle ''Initial update failed:'' env c w1
      in w2\<lparr>updateInterval := True\<rparr>)"

text \<open>One firing of the recurring timer: the callback runs only while the timer is armed.\<close>

definition timerFire :: "environment \<Rightarrow> world \<Rightarrow> cycle_input \<Rightarrow> world" where
  "timerFire env w c =
     (if updateInterval w then caughtCycle ''Auto-update failed:'' env c w else w)"

text \<open>Start-up followed by the timer firing once for each input of \<open>cs\<close>.\<close>

definition runScheduler :: "environment \<Rightarrow> cycle_input \<Rightarrow> cycle_input list \<Rightarrow> world \<Rightarrow> world" where
  "runScheduler env c0 cs w = foldl (timerFire env) (AutoUpdater env c0 w) cs"

section \<open>Predicates and sample data used in the statements\<close>

text \<open>The stop-time updates an entity carries, whatever its route.\<close>

definition entityUpdates :: "feed_entity \<Rightarrow> stop_time_update list" where
  "entityUpdates e =
     (case tripUpdate e of
        None \<Rightarrow> []
      | Some tu \<Rightarrow> (case stopTimeUpdate tu of None \<Rightarrow> [] | Some stus \<Rightarrow> stus))"

text \<open>
  The event \<open>ev\<close> is the item built from the update \<open>stu\<close>, whose computed
  minutes-away is not negative.
\<close>

definition producedBy :: "int \<Rightarrow> stop_time_update \<Rightarrow> arrival_item \<Rightarrow> bool" where
  "producedBy now stu ev =
     (case arrivalTimeOf stu of
        None \<Rightarrow> False
      | Some t \<Rightarrow>
          0 \<le> minutesAwayOf now t \<and>
          ev = \<lparr>minutesAway = labelOf (minutesAwayOf now t), arrivalTime = arrivalEpochOf t\<rparr>)"

definition windowOk :: "int \<Rightarrow> feed_entity list \<Rightarrow> arrival_item list \<Rightarrow> bool" where
  "windowOk now entities evs \<longleftrightarrow>
     length evs \<le> 3 \<and>
     sorted (map (\<lambda>a. toNumber (arrivalTime a)) evs) \<and>
     (\<forall>ev \<in> set evs. \<exists>e \<in> set entities. \<exists>stu \<in> set (entityUpdates e). producedBy now stu ev)"

text \<open>What slot \<open>i\<close> (counted from 0) of a direction has to hold.\<close>

definition slotValue :: "arrival_item list \<Rightarrow> nat \<Rightarrow> catalog_item" where
  "slotValue trains i =
     (if i < length trains then \<lparr>minutesAway = minutesAway (trains ! i)\<rparr>
      else \<lparr>minutesAway = ''--''\<rparr>)"

definition slotEntries :: "string \<Rightarrow> arrival_item list \<Rightarrow> catalog_items" where
  "slotEntries prefix trains =
     [(prefix @ ''_1'', slotValue trains 0), (prefix @ ''_2'', slotValue trains 1),
      (prefix @ ''_3'', slotValue trains 2)]"

definition stopUpdate :: "time_val \<Rightarrow> string \<Rightarrow> stop_time_update" where
  "stopUpdate t sid = \<lparr>arrival = Some \<lparr>time = Some t\<rparr>, stopId = Some sid\<rparr>"

definition tripEntity :: "string \<Rightarrow> stop_time_update list \<Rightarrow> feed_entity" where
  "tripEntity route stus =
     \<lparr>tripUpdate = Some \<lparr>trip = Some \<lparr>routeId = Some route\<rparr>, stopTimeUpdate = Some stus\<rparr>\<rparr>"

definition sampleFeed :: "feed_entity list" where
  "sampleFeed =
     [tripEntity ''F''
        [stopUpdate (Num 1125) ''D15N'', stopUpdate (Num 4700) ''D15N'',
         stopUpdate (Num 1300) ''D15N'', stopUpdate (Num 900) ''D15N'',
         stopUpdate (Num 1500) ''D15S'', stopUpdate (Num 1060) ''D15N'']]"

definition sampleArrivals :: train_data where
  "sampleArrivals =
     \<lparr>queensBound = \<lparr>nextThreeTrains =
        [\<lparr>minutesAway = ''2 min'', arrivalTime = Num 1125\<rparr>,
         \<lparr>minutesAway = ''62 min'', arrivalTime = Num 4700\<rparr>]\<rparr>,
      brooklynBound = \<lparr>nextThreeTrains = []\<rparr>\<rparr>"

definition sampleEnv :: environment where
  "sampleEnv =
     \<lparr>NOVISIGN_CONFIG =
        \<lparr>studioDomain = ''app.novisign.com'', apiKey = Some ''key'',
         catalogItemsGroup = ''mta-f-train''\<rparr>,
      postOutcome = (\<lambda>n. if n = 0 then Rejected ''timeout of 10000ms exceeded'' None
                         else Fulfilled ''ok'')\<rparr>"

definition failingCycle :: cycle_input where
  "failingCycle = \<lparr>feed = FeedFailed ''Network Error'', nowSeconds = 1000, isoTime = ''t0''\<rparr>"

definition goodCycle :: cycle_input where
  "goodCycle = \<lparr>feed = FeedDecoded sampleFeed, nowSeconds = 1000, isoTime = ''t1''\<rparr>"

definition freshWorld :: world where
  "freshWorld = \<lparr>consoleLines = [], requests = [], updateInterval = False\<rparr>"

section \<open>Arrival selector: provenance of the events\<close>

lemmas selector_eval =
  fetchFTrainArrivals_def onEntity_def onStopTimeUpdate_def pushByStop_def arrivalTimeOf_def
  sortByArrival_def roundDiv60_def labelOf_def ROUTE_ID_def STOP_QUEENS_def STOP_BROOKLYN_def
  Let_def longValue_def showNat.simps digitChar_def minutesAwayOf_def
  stopUpdate_def tripEntity_def sampleFeed_def

lemma onStu_queens:
  "ev \<in> set (queensArrivals (onStopTimeUpdate now bk stu)) \<Longrightarrow>
   ev \<in> set (queensArrivals bk) \<or> producedBy now stu ev"
  by (auto simp: onStopTimeUpdate_def pushByStop_def producedBy_def minutesAwayOf_def Let_def
      split: option.splits if_splits)

lemma onStu_brooklyn:
  "ev \<in> set (brooklynArrivals (onStopTimeUpdate now bk stu)) \<Longrightarrow>
   ev \<in> set (brooklynArrivals bk) \<or> producedBy now stu ev"
  by (auto simp: onStopTimeUpdate_def pushByStop_def producedBy_def minutesAwayOf_def Let_def
      split: option.splits if_splits)

lemma foldl_onStu_queens:
  "ev \<in> set (queensArrivals (foldl (onStopTimeUpdate now) bk stus)) \<Longrightarrow>
   ev \<in> set (queensArrivals bk) \<or> (\<exists>stu \<in> set stus. producedBy now stu ev)"
proof (induction stus arbitrary: bk)
  case Nil
  then show ?case by simp
next
  case (Cons s ss)
  from Cons.IH [of "onStopTimeUpdate now bk s"] Cons.prems
  show ?case using onStu_queens [of ev now bk s] by auto
qed

lemma foldl_onStu_brooklyn:
  "ev \<in> set (brooklynArrivals (foldl (onStopTimeUpdate now) bk stus)) \<Longrightarrow>
   ev \<in> set (brooklynArrivals bk) \<or> (\<exists>stu \<in> set stus. producedBy now stu ev)"
proof (induction stus arbitrary: bk)
  case Nil
  then show ?case by simp
next
  case (Cons s ss)
  from Cons.IH [of "onStopTimeUpdate now bk s"] Cons.prems
  show ?case using onStu_brooklyn [of ev now bk s] by auto
qed

lemma onEntity_queens:
  "ev \<in> set (queensArrivals (onEntity now bk e)) \<Longrightarrow>
   ev \<in> set (queensArrivals bk) \<or> (\<exists>stu \<in> set (entityUpdates e). producedBy now stu ev)"
  by (auto simp: onEntity_def entityUpdates_def split: option.splits if_splits
      dest: foldl_onStu_queens)

lemma onEntity_brooklyn:
  "ev \<in> set (brooklynArrivals (onEntity now bk e)) \<Longrightarrow>
   ev \<in> set (brooklynArrivals bk) \<or> (\<exists>stu \<in> set (entityUpdates e). producedBy now stu ev)"
  by (auto simp: onEntity_def entityUpdates_def split: option.splits if_splits
      dest: foldl_onStu_brooklyn)

lemma foldl_onEntity_queens:
  "ev \<in> set (queensArrivals (foldl (onEntity now) bk es)) \<Longrightarrow>
   ev \<in> set (queensArrivals bk) \<or>
   (\<exists>e \<in> set es. \<exists>stu \<in> set (entityUpdates e). producedBy now stu ev)"
proof (induction es arbitrary: bk)
  case Nil
  then show ?case by simp
next
  case (Cons x xs)
  from Cons.IH [of "onEntity now bk x"] Cons.prems
  show ?case using onEntity_queens [of ev now bk x] by auto
qed

lemma foldl_onEntity_brooklyn:
  "ev \<in> set (brooklynArrivals (foldl (onEntity now) bk es)) \<Longrightarrow>
   ev \<in> set (brooklynArrivals bk) \<or>
   (\<exists>e \<in> set es. \<exists>stu \<in> set (entityUpdates e). producedBy now stu ev)"
proof (induction es arbitrary: bk)
  case Nil
  then show ?case by simp
next
  case (Cons x xs)
  from Cons.IH [of "onEntity now bk x"] Cons.prems
  show ?case using onEntity_brooklyn [of ev now bk x] by auto
qed

lemma sorted_take_sortByArrival:
  "sorted (map (\<lambda>a. toNumber (arrivalTime a)) (take n (sortByArrival xs)))"
  unfolding sortByArrival_def take_map [symmetric]
  by (rule sorted_wrt_take) simp

lemma set_take_sortByArrival: "set (take n (sortByArrival xs)) \<subseteq> set xs"
  using set_take_subset [of n "sortByArrival xs"] by (simp add: sortByArrival_def)

lemma selector_lengths:
  assumes "fetchFTrainArrivals (FeedDecoded ents) now = Inr td"
  shows "length (nextThreeTrains (queensBound td)) \<le> 3"
    and "length (nextThreeTrains (brooklynBound td)) \<le> 3"
  using assms by (auto simp: fetchFTrainArrivals_def Let_def)

lemma sample_selection:
  "fetchFTrainArrivals (FeedDecoded sampleFeed) 1000 =
     Inr \<lparr>queensBound = \<lparr>nextThreeTrains =
            [\<lparr>minutesAway = ''1 min'', arrivalTime = Num 1060\<rparr>,
             \<lparr>minutesAway = ''2 min'', arrivalTime = Num 1125\<rparr>,
             \<lparr>minutesAway = ''5 min'', arrivalTime = Num 1300\<rparr>]\<rparr>,
          brooklynBound = \<lparr>nextThreeTrains =
            [\<lparr>minutesAway = ''8 min'', arrivalTime = Num 1500\<rparr>]\<rparr>\<rparr>"
  by (simp add: selector_eval)

text \<open>
  C1. For every decoded entity sequence and every reference time, the selector returns,
  and each direction's list has at most 3 events, is sorted ascending by the numeric
  arrival epoch, and holds only events built from a stop-time update of the feed whose
  computed minutes-away is not negative.
\<close>

theorem selector_window:
  "\<exists>td. fetchFTrainArrivals (FeedDecoded entities) now = Inr td \<and>
        windowOk now entities (nextThreeTrains (queensBound td)) \<and>
        windowOk now entities (nextThreeTrains (brooklynBound td))"
proof -
  let ?bk = "foldl (onEntity now) \<lparr>queensArrivals = [], brooklynArrivals = []\<rparr> entities"
  have q: "windowOk now entities (take 3 (sortByArrival (queensArrivals ?bk)))"
    unfolding windowOk_def
  proof (intro conjI ballI)
    fix ev assume "ev \<in> set (take 3 (sortByArrival (queensArrivals ?bk)))"
    then have "ev \<in> set (queensArrivals ?bk)" using set_take_sortByArrival by blast
    from foldl_onEntity_queens [OF this]
    show "\<exists>e \<in> set entities. \<exists>stu \<in> set (entityUpdates e). producedBy now stu ev" by simp
  qed (simp_all add: sorted_take_sortByArrival)
  have b: "windowOk now entities (take 3 (sortByArrival (brooklynArrivals ?bk)))"
    unfolding windowOk_def
  proof (intro conjI ballI)
    fix ev assume "ev \<in> set (take 3 (sortByArrival (brooklynArrivals ?bk)))"
    then have "ev \<in> set (brooklynArrivals ?bk)" using set_take_sortByArrival by blast
    from foldl_onEntity_brooklyn [OF this]
    show "\<exists>e \<in> set entities. \<exists>stu \<in> set (entityUpdates e). producedBy now stu ev" by simp
  qed (simp_all add: sorted_take_sortByArrival)
  show ?thesis using q b by (simp add: fetchFTrainArrivals_def Let_def)
qed

theorem selector_window_witness:
  "windowOk 1000 sampleFeed
     [\<lparr>minutesAway = ''1 min'', arrivalTime = Num 1060\<rparr>,
      \<lparr>minutesAway = ''2 min'', arrivalTime = Num 1125\<rparr>,
      \<lparr>minutesAway = ''5 min'', arrivalTime = Num 1300\<rparr>]
   \<and> windowOk 1000 sampleFeed [\<lparr>minutesAway = ''8 min'', arrivalTime = Num 1500\<rparr>]"
  using selector_window [of sampleFeed 1000] by (simp add: sample_selection)

section \<open>Arrival selector: labels, guards and filters\<close>

lemma roundDiv60_neg: "roundDiv60 d < 0 \<longleftrightarrow> d < - 30"
  by (simp add: roundDiv60_def pos_imp_zdiv_neg_iff) arith

lemma signed_low_of_sum:
  fixes w :: "32 word" and h :: int
  assumes "- (2 ^ 31) \<le> h * 2 ^ 32 + uint w" and "h * 2 ^ 32 + uint w < 2 ^ 31"
  shows "sint w = h * 2 ^ 32 + uint w"
proof -
  let ?v = "h * 2 ^ 32 + uint w"
  have "sint w = (uint w + 2 ^ 31) mod 2 ^ 32 - 2 ^ 31"
    by (simp add: sint_uint signed_take_bit_eq_take_bit_shift take_bit_eq_mod)
  also have "(uint w + 2 ^ 31) mod 2 ^ 32 = (?v + 2 ^ 31) mod (2 ^ 32 :: int)"
  proof -
    have "?v + 2 ^ 31 = (uint w + 2 ^ 31) + h * 2 ^ 32" by simp
    then show ?thesis by (simp only: mod_mult_self1 mod_mult_self2)
  qed
  also have "(?v + 2 ^ 31) mod (2 ^ 32 :: int) = ?v + 2 ^ 31"
    using assms by (intro mod_pos_pos_trivial) simp_all
  finally show ?thesis by simp
qed

lemma sint_low_fits:
  assumes "- (2 ^ 31) \<le> longValue l" and "longValue l < 2 ^ 31"
  shows "sint (low l) = longValue l"
proof (cases "unsigned l")
  case True
  with assms signed_low_of_sum [of "uint (high l)" "low l"] show ?thesis
    by (simp add: longValue_def)
next
  case False
  with assms signed_low_of_sum [of "sint (high l)" "low l"] show ?thesis
    by (simp add: longValue_def)
qed

text \<open>
  C2. For a stop-time update that passes the presence test: when the computed
  minutes-away is 0 the item pushed is labelled \<open>Arriving\<close>; when it is 1 the label is
  \<open>1 min\<close>, and for every \<open>N \<ge> 1\<close> it is the decimal \<open>N\<close> followed by \<open>min\<close>; when it
  is -1 both arrays are left as they were.
\<close>

theorem label_boundary:
  assumes "arrivalTimeOf stu = Some t" and "truthyTime t" and "truthyString (stopId stu)"
  shows "(minutesAwayOf now t = 0 \<longrightarrow>
            onStopTimeUpdate now bk stu =
              pushByStop (stopId stu) \<lparr>minutesAway = ''Arriving'', arrivalTime = arrivalEpochOf t\<rparr> bk)
       \<and> (minutesAwayOf now t = 1 \<longrightarrow>
            onStopTimeUpdate now bk stu =
              pushByStop (stopId stu) \<lparr>minutesAway = ''1 min'', arrivalTime = arrivalEpochOf t\<rparr> bk)
       \<and> (1 \<le> minutesAwayOf now t \<longrightarrow>
            onStopTimeUpdate now bk stu =
              pushByStop (stopId stu)
                \<lparr>minutesAway = showNat (nat (minutesAwayOf now t)) @ '' min'',
                 arrivalTime = arrivalEpochOf t\<rparr> bk)
       \<and> (minutesAwayOf now t = - 1 \<longrightarrow> onStopTimeUpdate now bk stu = bk)"
  using assms
  by (simp add: onStopTimeUpdate_def minutesAwayOf_def Let_def labelOf_def showNat.simps
      digitChar_def)

theorem label_boundary_witness:
  "onStopTimeUpdate 1000 \<lparr>queensArrivals = [], brooklynArrivals = []\<rparr> (stopUpdate (Num 1010) ''D15N'') =
     \<lparr>queensArrivals = [\<lparr>minutesAway = ''Arriving'', arrivalTime = Num 1010\<rparr>], brooklynArrivals = []\<rparr>
 \<and> onStopTimeUpdate 1000 \<lparr>queensArrivals = [], brooklynArrivals = []\<rparr> (stopUpdate (Num 1060) ''D15S'') =
     \<lparr>queensArrivals = [], brooklynArrivals = [\<lparr>minutesAway = ''1 min'', arrivalTime = Num 1060\<rparr>]\<rparr>
 \<and> onStopTimeUpdate 1000 \<lparr>queensArrivals = [], brooklynArrivals = []\<rparr> (stopUpdate (Num 4700) ''D15N'') =
     \<lparr>queensArrivals = [\<lparr>minutesAway = ''62 min'', arrivalTime = Num 4700\<rparr>], brooklynArrivals = []\<rparr>
 \<and> onStopTimeUpdate 1000 \<lparr>queensArrivals = [], brooklynArrivals = []\<rparr> (stopUpdate (Num 940) ''D15N'') =
     \<lparr>queensArrivals = [], brooklynArrivals = []\<rparr>"
  using label_boundary [of "stopUpdate (Num 1010) ''D15N''" "Num 1010" 1000
          "\<lparr>queensArrivals = [], brooklynArrivals = []\<rparr>"]
        label_boundary [of "stopUpdate (Num 1060) ''D15S''" "Num 1060" 1000
          "\<lparr>queensArrivals = [], brooklynArrivals = []\<rparr>"]
        label_boundary [of "stopUpdate (Num 4700) ''D15N''" "Num 4700" 1000
          "\<lparr>queensArrivals = [], brooklynArrivals = []\<rparr>"]
        label_boundary [of "stopUpdate (Num 940) ''D15N''" "Num 940" 1000
          "\<lparr>queensArrivals = [], brooklynArrivals = []\<rparr>"]
  by (simp add: stopUpdate_def arrivalTimeOf_def minutesAwayOf_def roundDiv60_def pushByStop_def
      STOP_QUEENS_def STOP_BROOKLYN_def showNat.simps digitChar_def)

text \<open>
  C3, as stated, fails: an update 10 seconds in the past is kept and labelled
  \<open>Arriving\<close>.
\<close>

theorem past_arrival_counterexample:
  "toNumber (arrivalEpochOf (Num 990)) - 1000 < 0
   \<and> fetchFTrainArrivals (FeedDecoded [tripEntity ''F'' [stopUpdate (Num 990) ''D15N'']]) 1000 =
       Inr \<lparr>queensBound = \<lparr>nextThreeTrains = [\<lparr>minutesAway = ''Arriving'', arrivalTime = Num 990\<rparr>]\<rparr>,
            brooklynBound = \<lparr>nextThreeTrains = []\<rparr>\<rparr>"
  by (simp add: selector_eval)

text \<open>
  C3, amended. The guard is on the rounded value: an update that passes the presence test
  is dropped exactly when its arrival epoch is more than 30 seconds before the reference
  time; from 30 seconds before it onwards the update produces an item, labelled
  \<open>Arriving\<close> while the difference is below 30 seconds.
\<close>

theorem past_guard:
  assumes "arrivalTimeOf stu = Some t" and "truthyTime t" and "truthyString (stopId stu)"
  shows "(toNumber (arrivalEpochOf t) - now < - 30 \<longrightarrow> onStopTimeUpdate now bk stu = bk)
       \<and> (- 30 \<le> toNumber (arrivalEpochOf t) - now \<longrightarrow>
            onStopTimeUpdate now bk stu =
              pushByStop (stopId stu)
                \<lparr>minutesAway = labelOf (minutesAwayOf now t), arrivalTime = arrivalEpochOf t\<rparr> bk)
       \<and> (- 30 \<le> toNumber (arrivalEpochOf t) - now \<and> toNumber (arrivalEpochOf t) - now < 30
            \<longrightarrow> labelOf (minutesAwayOf now t) = ''Arriving'')"
  using assms
  by (auto simp add: onStopTimeUpdate_def minutesAwayOf_def Let_def roundDiv60_neg labelOf_def
      roundDiv60_def)

theorem past_guard_witness:
  "onStopTimeUpdate 1000 \<lparr>queensArrivals = [], brooklynArrivals = []\<rparr> (stopUpdate (Num 969) ''D15N'') =
     \<lparr>queensArrivals = [], brooklynArrivals = []\<rparr>
 \<and> onStopTimeUpdate 1000 \<lparr>queensArrivals = [], brooklynArrivals = []\<rparr> (stopUpdate (Num 970) ''D15N'') =
     \<lparr>queensArrivals = [\<lparr>minutesAway = ''Arriving'', arrivalTime = Num 970\<rparr>], brooklynArrivals = []\<rparr>"
  using past_guard [of "stopUpdate (Num 969) ''D15N''" "Num 969" 1000
          "\<lparr>queensArrivals = [], brooklynArrivals = []\<rparr>"]
        past_guard [of "stopUpdate (Num 970) ''D15N''" "Num 970" 1000
          "\<lparr>queensArrivals = [], brooklynArrivals = []\<rparr>"]
  by (simp add: stopUpdate_def arrivalTimeOf_def minutesAwayOf_def pushByStop_def
      STOP_QUEENS_def STOP_BROOKLYN_def)

text \<open>
  C5. An entity without a trip update, without a trip, or of another route than \<open>F\<close>
  leaves both arrays as they were, and so does a stop-time update whose stop identifier is
  neither \<open>D15N\<close> nor \<open>D15S\<close>; the selector's result is the same with or without
  such an entity in the feed.
\<close>

theorem route_stop_filter:
  "(tripUpdate e = None \<longrightarrow> onEntity now bk e = bk)
 \<and> (\<forall>tu. tripUpdate e = Some tu \<and> trip tu = None \<longrightarrow> onEntity now bk e = bk)
 \<and> (\<forall>tu tr. tripUpdate e = Some tu \<and> trip tu = Some tr \<and> routeId tr \<noteq> Some ROUTE_ID
        \<longrightarrow> onEntity now bk e = bk)
 \<and> (stopId stu \<noteq> Some STOP_QUEENS \<and> stopId stu \<noteq> Some STOP_BROOKLYN
        \<longrightarrow> onStopTimeUpdate now bk stu = bk)
 \<and> ((\<forall>b. onEntity now b e = b) \<longrightarrow>
        fetchFTrainArrivals (FeedDecoded (es @ e # es')) now =
        fetchFTrainArrivals (FeedDecoded (es @ es')) now)"
  by (auto simp: onEntity_def onStopTimeUpdate_def pushByStop_def fetchFTrainArrivals_def Let_def
      split: option.splits)

theorem route_stop_filter_witness:
  "onEntity 1000 \<lparr>queensArrivals = [], brooklynArrivals = []\<rparr> \<lparr>tripUpdate = None\<rparr> =
     \<lparr>queensArrivals = [], brooklynArrivals = []\<rparr>
 \<and> onEntity 1000 \<lparr>queensArrivals = [], brooklynArrivals = []\<rparr>
      (tripEntity ''M'' [stopUpdate (Num 1125) ''D15N'']) =
     \<lparr>queensArrivals = [], brooklynArrivals = []\<rparr>
 \<and> onStopTimeUpdate 1000 \<lparr>queensArrivals = [], brooklynArrivals = []\<rparr> (stopUpdate (Num 1125) ''D16N'') =
     \<lparr>queensArrivals = [], brooklynArrivals = []\<rparr>"
  using route_stop_filter [of "\<lparr>tripUpdate = None\<rparr>" 1000
          "\<lparr>queensArrivals = [], brooklynArrivals = []\<rparr>" "stopUpdate (Num 1125) ''D16N''"]
        route_stop_filter [of "tripEntity ''M'' [stopUpdate (Num 1125) ''D15N'']" 1000
          "\<lparr>queensArrivals = [], brooklynArrivals = []\<rparr>" "stopUpdate (Num 1125) ''D16N''"]
  by (simp add: tripEntity_def stopUpdate_def ROUTE_ID_def STOP_QUEENS_def STOP_BROOKLYN_def)

text \<open>
  Where line 213 yields the arrival epoch: for a wrapped value with a nonzero low half the
  selector computes with the signed low 32-bit half, and that half is the 64-bit value
  only when the value fits in a signed 32-bit integer.
\<close>

lemma low_half_extraction:
  assumes "arrivalTimeOf stu = Some (LongObj l)" and "sint (low l) \<noteq> 0"
    and "truthyString (stopId stu)"
  shows "arrivalEpochOf (LongObj l) = Num (sint (low l))
       \<and> minutesAwayOf now (LongObj l) = roundDiv60 (sint (low l) - now)
       \<and> onStopTimeUpdate now bk stu =
           (if roundDiv60 (sint (low l) - now) < 0 then bk
            else pushByStop (stopId stu)
                   \<lparr>minutesAway = labelOf (roundDiv60 (sint (low l) - now)),
                    arrivalTime = Num (sint (low l))\<rparr> bk)
       \<and> (- (2 ^ 31) \<le> longValue l \<and> longValue l < 2 ^ 31 \<longrightarrow> sint (low l) = longValue l)"
  using assms sint_low_fits [of l]
  by (simp add: onStopTimeUpdate_def minutesAwayOf_def Let_def)

text \<open>
  C8. The selector is to turn a wrapped 64-bit arrival time into one plain integer that
  keeps every value of the safe integer range, and to compute with that integer. Line 213
  does not: the epoch \<open>2 ^ 32 + 5\<close>, well inside the safe range, becomes 5, so a train
  five minutes ahead is dropped as past, while the same epoch arriving as a plain number
  is kept and labelled \<open>5 min\<close>; the epoch \<open>2 ^ 31 + 5\<close> becomes negative, so a train
  53 seconds ahead is dropped; and the epoch \<open>2 ^ 32\<close>, whose low half is 0, is not
  coerced at all and stays wrapped.
\<close>

theorem wrapped_time_defect:
  "longValue (Long 5 1 False) = 4294967301
   \<and> \<bar>longValue (Long 5 1 False)\<bar> < 2 ^ 53
   \<and> arrivalEpochOf (LongObj (Long 5 1 False)) = Num 5
   \<and> roundDiv60 (longValue (Long 5 1 False) - 4294967000) = 5
   \<and> fetchFTrainArrivals
        (FeedDecoded [tripEntity ''F'' [stopUpdate (LongObj (Long 5 1 False)) ''D15N'']]) 4294967000 =
       Inr \<lparr>queensBound = \<lparr>nextThreeTrains = []\<rparr>, brooklynBound = \<lparr>nextThreeTrains = []\<rparr>\<rparr>
   \<and> fetchFTrainArrivals
        (FeedDecoded [tripEntity ''F'' [stopUpdate (Num 4294967301) ''D15N'']]) 4294967000 =
       Inr \<lparr>queensBound = \<lparr>nextThreeTrains =
              [\<lparr>minutesAway = ''5 min'', arrivalTime = Num 4294967301\<rparr>]\<rparr>,
            brooklynBound = \<lparr>nextThreeTrains = []\<rparr>\<rparr>
   \<and> longValue (Long 2147483653 0 False) = 2147483653
   \<and> arrivalEpochOf (LongObj (Long 2147483653 0 False)) = Num (- 2147483643)
   \<and> fetchFTrainArrivals
        (FeedDecoded [tripEntity ''F'' [stopUpdate (LongObj (Long 2147483653 0 False)) ''D15N'']])
        2147483600 =
       Inr \<lparr>queensBound = \<lparr>nextThreeTrains = []\<rparr>, brooklynBound = \<lparr>nextThreeTrains = []\<rparr>\<rparr>
   \<and> arrivalEpochOf (LongObj (Long 0 1 False)) = LongObj (Long 0 1 False)"
  by (simp add: selector_eval)

text \<open>
  C10. The presence test is on truthiness: an update whose arrival time is the number 0,
  or whose stop identifier is the empty string, leaves both arrays as they were, exactly
  as the same update with the field absent does. The callback has no failing branch.
  (A zero that arrives wrapped is an object and passes the test; the guard on the minutes
  drops it for every reference time above 30.)
\<close>

theorem falsy_presence:
  "(arrivalTimeOf stu = Some (Num 0) \<longrightarrow>
      onStopTimeUpdate now bk stu = bk \<and>
      onStopTimeUpdate now bk stu = onStopTimeUpdate now bk (stu\<lparr>arrival := None\<rparr>))
 \<and> (stopId stu = Some [] \<longrightarrow>
      onStopTimeUpdate now bk stu = bk \<and>
      onStopTimeUpdate now bk stu = onStopTimeUpdate now bk (stu\<lparr>stopId := None\<rparr>))
 \<and> (\<forall>u. arrivalTimeOf stu = Some (LongObj (Long 0 0 u)) \<and> 30 < now \<longrightarrow>
      onStopTimeUpdate now bk stu = bk)"
  by (auto simp: onStopTimeUpdate_def arrivalTimeOf_def longValue_def roundDiv60_neg Let_def
      split: option.splits)

theorem falsy_presence_witness:
  "onStopTimeUpdate (- 600) \<lparr>queensArrivals = [], brooklynArrivals = []\<rparr> (stopUpdate (Num 0) ''D15N'') =
     \<lparr>queensArrivals = [], brooklynArrivals = []\<rparr>
 \<and> onStopTimeUpdate 1000 \<lparr>queensArrivals = [], brooklynArrivals = []\<rparr> (stopUpdate (Num 1125) '''') =
     \<lparr>queensArrivals = [], brooklynArrivals = []\<rparr>
 \<and> roundDiv60 (0 - (- 600)) = 10"
  using falsy_presence [of "stopUpdate (Num 0) ''D15N''" "- 600"
          "\<lparr>queensArrivals = [], brooklynArrivals = []\<rparr>"]
        falsy_presence [of "stopUpdate (Num 1125) ''''" 1000
          "\<lparr>queensArrivals = [], brooklynArrivals = []\<rparr>"]
  by (simp add: stopUpdate_def arrivalTimeOf_def roundDiv60_def)

section \<open>Catalog formatter: fixed shape and purity\<close>

lemma short_list_cases:
  assumes "length xs \<le> 3"
  obtains "xs = []" | a where "xs = [a]" | a b where "xs = [a, b]"
    | a b c where "xs = [a, b, c]"
proof (cases xs)
  case Nil
  then show ?thesis using that by simp
next
  case (Cons a ys)
  note c1 = this
  show ?thesis
  proof (cases ys)
    case Nil
    with c1 show ?thesis using that by simp
  next
    case (Cons b zs)
    note c2 = this
    show ?thesis
    proof (cases zs)
      case Nil
      with c1 c2 show ?thesis using that by simp
    next
      case (Cons c us)
      with c1 c2 assms have "us = []" by simp
      with Cons c1 c2 show ?thesis using that by simp
    qed
  qed
qed

lemma update_fresh: "k \<notin> fst ` set al \<Longrightarrow> AList.update k v al = al @ [(k, v)]"
  by (induction al) auto

lemmas format_eval =
  formatDirection_def fillPlaceholders.simps putTrain_def Let_def showNat.simps digitChar_def

lemma formatDirection_items:
  assumes "length trains \<le> 3"
    and "prefix @ ''_1'' \<notin> fst ` set items" and "prefix @ ''_2'' \<notin> fst ` set items"
    and "prefix @ ''_3'' \<notin> fst ` set items"
  shows "fst (formatDirection prefix trains (items, con)) = items @ slotEntries prefix trains"
  using assms(1)
proof (cases trains rule: short_list_cases)
  case 1
  have "fst (formatDirection prefix [] (items, con)) = items @ slotEntries prefix []"
    using assms(2-4)
    apply (simp add: format_eval)
    apply (simp add: update_fresh slotEntries_def slotValue_def)
    done
  with 1 show ?thesis by simp
next
  case (2 a)
  have "fst (formatDirection prefix [a] (items, con)) = items @ slotEntries prefix [a]"
    using assms(2-4)
    apply (simp add: format_eval)
    apply (simp add: update_fresh slotEntries_def slotValue_def)
    done
  with 2 show ?thesis by simp
next
  case (3 a b)
  have "fst (formatDirection prefix [a, b] (items, con)) = items @ slotEntries prefix [a, b]"
    using assms(2-4)
    apply (simp add: format_eval)
    apply (simp add: update_fresh slotEntries_def slotValue_def)
    done
  with 3 show ?thesis by simp
next
  case (4 a b c)
  have "fst (formatDirection prefix [a, b, c] (items, con)) = items @ slotEntries prefix [a, b, c]"
    using assms(2-4)
    apply (simp add: format_eval)
    apply (simp add: update_fresh slotEntries_def slotValue_def)
    done
  with 4 show ?thesis by simp
qed

lemma format_items:
  assumes "length (nextThreeTrains (queensBound td)) \<le> 3"
    and "length (nextThreeTrains (brooklynBound td)) \<le> 3"
  shows "fst (formatDataForNoviSign td con) =
           slotEntries ''queens'' (nextThreeTrains (queensBound td)) @
           slotEntries ''brooklyn'' (nextThreeTrains (brooklynBound td))"
proof -
  obtain items1 con1 where st1:
    "formatDirection ''queens'' (nextThreeTrains (queensBound td))
       ([], con @ [''Formatting data for NoviSign:'']) = (items1, con1)"
    by (cases "formatDirection ''queens'' (nextThreeTrains (queensBound td))
                 ([], con @ [''Formatting data for NoviSign:''])")
  have q: "items1 = slotEntries ''queens'' (nextThreeTrains (queensBound td))"
    using formatDirection_items [OF assms(1), of "''queens''" "[]"
            "con @ [''Formatting data for NoviSign:'']"] st1
    by simp
  have "fst (formatDirection ''brooklyn'' (nextThreeTrains (brooklynBound td)) (items1, con1))
          = items1 @ slotEntries ''brooklyn'' (nextThreeTrains (brooklynBound td))"
    by (rule formatDirection_items [OF assms(2)]) (simp_all add: q slotEntries_def)
  then show ?thesis by (simp add: formatDataForNoviSign_def Let_def st1 q)
qed

lemma format_six_items:
  assumes "length (nextThreeTrains (queensBound td)) \<le> 3"
    and "length (nextThreeTrains (brooklynBound td)) \<le> 3"
  shows "length (fst (formatDataForNoviSign td con)) = 6"
  by (simp add: format_items [OF assms] slotEntries_def)

text \<open>
  C4. For every pair of directions with at most 3 events each, the formatter returns an
  object whose keys are exactly \<open>queens_1\<close>, \<open>queens_2\<close>, \<open>queens_3\<close>,
  \<open>brooklyn_1\<close>, \<open>brooklyn_2\<close>, \<open>brooklyn_3\<close>, each once; slot \<open>i\<close> holds the
  \<open>minutesAway\<close> of the \<open>i\<close>-th event when there is one and \<open>--\<close> otherwise.
\<close>

theorem format_fixed_shape:
  assumes "length (nextThreeTrains (queensBound td)) \<le> 3"
    and "length (nextThreeTrains (brooklynBound td)) \<le> 3"
  shows "set (map fst (fst (formatDataForNoviSign td con))) =
           {''queens_1'', ''queens_2'', ''queens_3'', ''brooklyn_1'', ''brooklyn_2'', ''brooklyn_3''}
       \<and> distinct (map fst (fst (formatDataForNoviSign td con)))
       \<and> length (fst (formatDataForNoviSign td con)) = 6
       \<and> map_of (fst (formatDataForNoviSign td con)) ''queens_1'' =
           Some (slotValue (nextThreeTrains (queensBound td)) 0)
       \<and> map_of (fst (formatDataForNoviSign td con)) ''queens_2'' =
           Some (slotValue (nextThreeTrains (queensBound td)) 1)
       \<and> map_of (fst (formatDataForNoviSign td con)) ''queens_3'' =
           Some (slotValue (nextThreeTrains (queensBound td)) 2)
       \<and> map_of (fst (formatDataForNoviSign td con)) ''brooklyn_1'' =
           Some (slotValue (nextThreeTrains (brooklynBound td)) 0)
       \<and> map_of (fst (formatDataForNoviSign td con)) ''brooklyn_2'' =
           Some (slotValue (nextThreeTrains (brooklynBound td)) 1)
       \<and> map_of (fst (formatDataForNoviSign td con)) ''brooklyn_3'' =
           Some (slotValue (nextThreeTrains (brooklynBound td)) 2)"
  unfolding format_items [OF assms] by (simp add: slotEntries_def)

theorem format_fixed_shape_witness:
  "length (fst (formatDataForNoviSign sampleArrivals [])) = 6
 \<and> map_of (fst (formatDataForNoviSign sampleArrivals [])) ''queens_1'' = Some \<lparr>minutesAway = ''2 min''\<rparr>
 \<and> map_of (fst (formatDataForNoviSign sampleArrivals [])) ''queens_2'' = Some \<lparr>minutesAway = ''62 min''\<rparr>
 \<and> map_of (fst (formatDataForNoviSign sampleArrivals [])) ''queens_3'' = Some \<lparr>minutesAway = ''--''\<rparr>
 \<and> map_of (fst (formatDataForNoviSign sampleArrivals [])) ''brooklyn_1'' = Some \<lparr>minutesAway = ''--''\<rparr>
 \<and> map_of (fst (formatDataForNoviSign sampleArrivals [])) ''brooklyn_2'' = Some \<lparr>minutesAway = ''--''\<rparr>
 \<and> map_of (fst (formatDataForNoviSign sampleArrivals [])) ''brooklyn_3'' = Some \<lparr>minutesAway = ''--''\<rparr>"
  using format_fixed_shape [of sampleArrivals "[]"]
  by (simp add: sampleArrivals_def slotValue_def)

lemma putTrain_fst: "fst st = fst st' \<Longrightarrow> fst (putTrain p st it) = fst (putTrain p st' it)"
  by (simp add: putTrain_def Let_def)

lemma foldl_putTrain_fst:
  "fst st = fst st' \<Longrightarrow> fst (foldl (putTrain p) st xs) = fst (foldl (putTrain p) st' xs)"
proof (induction xs arbitrary: st st')
  case Nil
  then show ?case by simp
next
  case (Cons x xs)
  show ?case using Cons.IH [OF putTrain_fst [OF Cons.prems, of p x]] by simp
qed

lemma fillPlaceholders_fst:
  "fst st = fst st' \<Longrightarrow> fst (fillPlaceholders p i st) = fst (fillPlaceholders p i st')"
proof (induction p i st arbitrary: st' rule: fillPlaceholders.induct)
  case (1 prefix i st)
  show ?case
  proof (cases "i < 3")
    case True
    let ?k = "prefix @ ''_'' @ showNat (i + 1)"
    let ?next = "\<lambda>s. (AList.update ?k \<lparr>minutesAway = ''--''\<rparr> (fst s),
                        snd s @ [?k @ '': No train (placeholder)''])"
    have "fst (fillPlaceholders prefix (i + 1) (?next st)) =
          fst (fillPlaceholders prefix (i + 1) (?next st'))"
      by (rule 1(1) [OF True refl]) (simp add: 1(2))
    moreover have "fillPlaceholders prefix i st = fillPlaceholders prefix (i + 1) (?next st)"
      using True by (subst fillPlaceholders.simps) (simp add: Let_def)
    moreover have "fillPlaceholders prefix i st' = fillPlaceholders prefix (i + 1) (?next st')"
      using True by (subst fillPlaceholders.simps) (simp add: Let_def)
    ultimately show ?thesis by simp
  next
    case False
    with 1(2) show ?thesis by (simp add: fillPlaceholders.simps)
  qed
qed

lemma formatDirection_fst:
  "fst st = fst st' \<Longrightarrow> fst (formatDirection p xs st) = fst (formatDirection p xs st')"
  unfolding formatDirection_def
  by (rule fillPlaceholders_fst) (rule foldl_putTrain_fst)

lemma format_console_indep:
  "fst (formatDataForNoviSign td con) = fst (formatDataForNoviSign td con')"
  unfolding formatDataForNoviSign_def Let_def
  by (intro formatDirection_fst) simp

text \<open>
  C9. The object the formatter returns depends on its argument alone: it is the same
  whatever the console held before the call, and a second call on the same input, made
  after the first, returns the same object.
\<close>

theorem format_pure:
  "fst (formatDataForNoviSign td con) = fst (formatDataForNoviSign td con')
 \<and> (let first = formatDataForNoviSign td con;
         second = formatDataForNoviSign td (snd first)
     in fst second = fst first)"
  using format_console_indep [of td con con']
        format_console_indep [of td "snd (formatDataForNoviSign td con)" con]
  by (simp add: Let_def)

theorem format_pure_witness:
  "fst (formatDataForNoviSign sampleArrivals (snd (formatDataForNoviSign sampleArrivals [''earlier line'']))) =
     [(''queens_1'', \<lparr>minutesAway = ''2 min''\<rparr>), (''queens_2'', \<lparr>minutesAway = ''62 min''\<rparr>),
      (''queens_3'', \<lparr>minutesAway = ''--''\<rparr>), (''brooklyn_1'', \<lparr>minutesAway = ''--''\<rparr>),
      (''brooklyn_2'', \<lparr>minutesAway = ''--''\<rparr>), (''brooklyn_3'', \<lparr>minutesAway = ''--''\<rparr>)]"
proof -
  have "fst (formatDataForNoviSign sampleArrivals [''earlier line'']) =
     [(''queens_1'', \<lparr>minutesAway = ''2 min''\<rparr>), (''queens_2'', \<lparr>minutesAway = ''62 min''\<rparr>),
      (''queens_3'', \<lparr>minutesAway = ''--''\<rparr>), (''brooklyn_1'', \<lparr>minutesAway = ''--''\<rparr>),
      (''brooklyn_2'', \<lparr>minutesAway = ''--''\<rparr>), (''brooklyn_3'', \<lparr>minutesAway = ''--''\<rparr>)]"
    by (simp add: format_items sampleArrivals_def slotEntries_def slotValue_def)
  with format_pure [of sampleArrivals "[''earlier line'']" "[]"] show ?thesis
    by (simp add: Let_def)
qed

section \<open>Catalog publisher: one request, one outcome\<close>

lemma consoleLog_fields [simp]:
  "requests (consoleLog line w) = requests w"
  "updateInterval (consoleLog line w) = updateInterval w"
  "consoleLines (consoleLog line w) = consoleLines w @ [line]"
  by (simp_all add: consoleLog_def)

lemma push_fulfilled:
  assumes "postOutcome env (length (requests w)) = Fulfilled d"
  shows "fst (pushToNoviSign env isoNow dataItems grp w) =
           Inr \<lparr>success = True, itemsUpdated = length (map fst dataItems),
                timestamp = isoNow, response = d\<rparr>"
  using assms by (simp add: pushToNoviSign_def axiosPost_def Let_def)

lemma push_rejected:
  assumes "postOutcome env (length (requests w)) = Rejected msg resp"
  shows "fst (pushToNoviSign env isoNow dataItems grp w) =
           Inl (Error (case resp of
                  Some r \<Rightarrow> ''NoviSign API error ('' @ showNat (status r) @ ''): '' @
                              orElse (dataMessage r) msg
                | None \<Rightarrow> ''Failed to push to NoviSign: '' @ msg))"
  using assms by (simp add: pushToNoviSign_def axiosPost_def Let_def split: option.splits)

lemma push_requests:
  "requests (snd (pushToNoviSign env isoNow dataItems grp w)) =
     requests w @
       [\<lparr>url = ''https://'' @ studioDomain (NOVISIGN_CONFIG env) @ ''/catalog/items/'' @
                 orElse grp (catalogItemsGroup (NOVISIGN_CONFIG env)),
         headers = [(''Content-Type'', Some ''application/json''),
                    (''X-API-KEY'', apiKey (NOVISIGN_CONFIG env))],
         requestBody = dataItems, timeout = 10000\<rparr>]"
  by (simp add: pushToNoviSign_def axiosPost_def Let_def
      split: http_outcome.splits option.splits)

lemma push_timer:
  "updateInterval (snd (pushToNoviSign env isoNow dataItems grp w)) = updateInterval w"
  by (simp add: pushToNoviSign_def axiosPost_def Let_def
      split: http_outcome.splits option.splits)

text \<open>
  C6. The publisher returns a result exactly when the POST request is fulfilled, and the
  result then has \<open>success\<close> true and \<open>itemsUpdated\<close> equal to the number of keys of
  the object sent. When the request is rejected it throws one error instead, whose message
  names the status for a rejection with a response and the transport message otherwise.
  In every case exactly one request is issued.
\<close>

theorem push_result:
  "((\<exists>r. fst (pushToNoviSign env isoNow dataItems grp w) = Inr r) \<longleftrightarrow>
      (\<exists>d. postOutcome env (length (requests w)) = Fulfilled d))
 \<and> (\<forall>r. fst (pushToNoviSign env isoNow dataItems grp w) = Inr r \<longrightarrow>
        success r \<and> itemsUpdated r = length (map fst dataItems))
 \<and> (\<forall>msg r. postOutcome env (length (requests w)) = Rejected msg (Some r) \<longrightarrow>
        fst (pushToNoviSign env isoNow dataItems grp w) =
          Inl (Error (''NoviSign API error ('' @ showNat (status r) @ ''): '' @
                      orElse (dataMessage r) msg)))
 \<and> (\<forall>msg. postOutcome env (length (requests w)) = Rejected msg None \<longrightarrow>
        fst (pushToNoviSign env isoNow dataItems grp w) =
          Inl (Error (''Failed to push to NoviSign: '' @ msg)))
 \<and> length (requests (snd (pushToNoviSign env isoNow dataItems grp w))) = length (requests w) + 1"
proof (cases "postOutcome env (length (requests w))")
  case (Fulfilled d)
  from push_fulfilled [OF this, of isoNow dataItems grp] Fulfilled show ?thesis
    by (simp add: push_requests)
next
  case (Rejected msg resp)
  from push_rejected [OF this, of isoNow dataItems grp] Rejected show ?thesis
    by (simp add: push_requests)
qed

theorem push_result_witness:
  "fst (pushToNoviSign sampleEnv ''t0'' [(''queens_1'', \<lparr>minutesAway = ''5 min''\<rparr>)] None freshWorld) =
     Inl (Error ''Failed to push to NoviSign: timeout of 10000ms exceeded'')
 \<and> (\<exists>r. fst (pushToNoviSign sampleEnv ''t1'' [(''queens_1'', \<lparr>minutesAway = ''5 min''\<rparr>)] None
             (snd (pushToNoviSign sampleEnv ''t0'' [(''queens_1'', \<lparr>minutesAway = ''5 min''\<rparr>)] None freshWorld)))
          = Inr r \<and> success r \<and> itemsUpdated r = 1)"
proof -
  let ?items = "[(''queens_1'', \<lparr>minutesAway = ''5 min''\<rparr>)]"
  let ?w1 = "snd (pushToNoviSign sampleEnv ''t0'' ?items None freshWorld)"
  have 0: "postOutcome sampleEnv (length (requests freshWorld)) =
             Rejected ''timeout of 10000ms exceeded'' None"
    by (simp add: sampleEnv_def freshWorld_def)
  have n: "length (requests ?w1) = 1"
    using push_result [of sampleEnv "''t0''" ?items None freshWorld]
    by (simp add: freshWorld_def)
  have 1: "postOutcome sampleEnv (length (requests ?w1)) = Fulfilled ''ok''"
    by (simp only: n) (simp add: sampleEnv_def)
  show ?thesis
    using push_result [of sampleEnv "''t0''" ?items None freshWorld] 0
          push_result [of sampleEnv "''t1''" ?items None ?w1] 1
    by auto
qed

section \<open>Update scheduler: isolation of cycles\<close>

lemma push_timer_pair:
  "pushToNoviSign env isoNow dataItems grp w = (r, w') \<Longrightarrow> updateInterval w' = updateInterval w"
  using push_timer [of env isoNow dataItems grp w] by simp

lemma cycle_timer:
  "updateInterval (snd (fetchAndPushToNoviSign env c w)) = updateInterval w"
  unfolding fetchAndPushToNoviSign_def Let_def
  by (auto split: sum.splits prod.splits dest!: push_timer_pair)

lemma caughtCycle_timer:
  "updateInterval (caughtCycle prefix env c w) = updateInterval w"
  using cycle_timer [of env c w]
  by (auto simp: caughtCycle_def split: prod.splits sum.splits)

lemma timerFire_timer: "updateInterval (timerFire env w c) = updateInterval w"
  by (simp add: timerFire_def caughtCycle_timer)

lemma foldl_timerFire_timer:
  "updateInterval (foldl (timerFire env) w cs) = updateInterval w"
  by (induction cs arbitrary: w) (simp_all add: timerFire_timer)

lemma scheduler_armed: "updateInterval (runScheduler env c0 cs w)"
  by (simp add: runScheduler_def foldl_timerFire_timer AutoUpdater_def Let_def)

lemma runScheduler_snoc:
  "runScheduler env c0 (cs @ [c]) w = timerFire env (runScheduler env c0 cs w) c"
  by (simp add: runScheduler_def)

lemma cycle_completes:
  assumes f: "fetchFTrainArrivals (feed c) (nowSeconds c) = Inr td"
    and p: "postOutcome env (length (requests w)) = Fulfilled d"
  shows "\<exists>w'. fetchAndPushToNoviSign env c w =
                (Inr \<lparr>success = True,
                      itemsUpdated = length (map fst (fst (formatDataForNoviSign td con))),
                      timestamp = isoTime c, response = d\<rparr>, w')
            \<and> map requestBody (requests w') =
                map requestBody (requests w) @ [fst (formatDataForNoviSign td con)]
            \<and> (\<exists>pre. consoleLines w' =
                  pre @ [''Workflow completed successfully!'', replicate 60 CHR ''=''])"
proof -
  let ?w2 = "consoleLog ''Formatting data for NoviSign...''
               (consoleLog ''Data fetched successfully''
                 (consoleLog ''Fetching train data from MTA API...''
                   (consoleLog (replicate 60 CHR ''='') (consoleLog ''Starting NoviSign Update'' w))))"
  let ?fmt = "formatDataForNoviSign td (consoleLines ?w2)"
  let ?w3 = "consoleLog ''Pushing to NoviSign API...'' (?w2\<lparr>consoleLines := snd ?fmt\<rparr>)"
  obtain r w4 where pw: "pushToNoviSign env (isoTime c) (fst ?fmt) None ?w3 = (r, w4)"
    by (cases "pushToNoviSign env (isoTime c) (fst ?fmt) None ?w3")
  have items: "fst ?fmt = fst (formatDataForNoviSign td con)"
    by (rule format_console_indep)
  have p3: "postOutcome env (length (requests ?w3)) = Fulfilled d"
    using p by simp
  have r: "r = Inr \<lparr>success = True,
                     itemsUpdated = length (map fst (fst (formatDataForNoviSign td con))),
                     timestamp = isoTime c, response = d\<rparr>"
    using push_fulfilled [OF p3, of "isoTime c" "fst ?fmt" None] pw items by simp
  have rq: "map requestBody (requests w4) =
              map requestBody (requests w) @ [fst (formatDataForNoviSign td con)]"
    using push_requests [of env "isoTime c" "fst ?fmt" None ?w3] pw items by simp
  have "fetchAndPushToNoviSign env c w =
          (r, consoleLog (replicate 60 CHR ''='')
                (consoleLog ''Workflow completed successfully!'' w4))"
    using f pw r by (simp add: fetchAndPushToNoviSign_def Let_def)
  with r rq show ?thesis by simp
qed

lemma push_requests_pair:
  "pushToNoviSign env isoNow dataItems grp w = (r, w') \<Longrightarrow>
   map requestBody (requests w') = map requestBody (requests w) @ [dataItems]"
  using push_requests [of env isoNow dataItems grp w] by simp

lemma cycle_requests_failed_fetch:
  "fetchFTrainArrivals (feed c) (nowSeconds c) = Inl e \<Longrightarrow>
   requests (snd (fetchAndPushToNoviSign env c w)) = requests w"
  by (simp add: fetchAndPushToNoviSign_def Let_def)

lemma cycle_requests:
  assumes "fetchFTrainArrivals (feed c) (nowSeconds c) = Inr td"
  shows "map requestBody (requests (snd (fetchAndPushToNoviSign env c w))) =
           map requestBody (requests w) @ [fst (formatDataForNoviSign td con)]"
  using assms format_console_indep [of td _ con]
  unfolding fetchAndPushToNoviSign_def Let_def
  by (auto split: sum.splits prod.splits dest!: push_requests_pair)

lemma caughtCycle_requests:
  "requests (caughtCycle prefix env c w) = requests (snd (fetchAndPushToNoviSign env c w))"
  by (auto simp: caughtCycle_def split: prod.splits sum.splits)

lemma sample_format:
  "fst (formatDataForNoviSign
          \<lparr>queensBound = \<lparr>nextThreeTrains =
             [\<lparr>minutesAway = ''1 min'', arrivalTime = Num 1060\<rparr>,
              \<lparr>minutesAway = ''2 min'', arrivalTime = Num 1125\<rparr>,
              \<lparr>minutesAway = ''5 min'', arrivalTime = Num 1300\<rparr>]\<rparr>,
           brooklynBound = \<lparr>nextThreeTrains =
             [\<lparr>minutesAway = ''8 min'', arrivalTime = Num 1500\<rparr>]\<rparr>\<rparr> con) =
     [(''queens_1'', \<lparr>minutesAway = ''1 min''\<rparr>), (''queens_2'', \<lparr>minutesAway = ''2 min''\<rparr>),
      (''queens_3'', \<lparr>minutesAway = ''5 min''\<rparr>), (''brooklyn_1'', \<lparr>minutesAway = ''8 min''\<rparr>),
      (''brooklyn_2'', \<lparr>minutesAway = ''--''\<rparr>), (''brooklyn_3'', \<lparr>minutesAway = ''--''\<rparr>)]"
  by (simp add: format_items slotEntries_def slotValue_def)

lemma sample_run_requests:
  "map requestBody (requests (runScheduler sampleEnv failingCycle [goodCycle] freshWorld)) =
     [[(''queens_1'', \<lparr>minutesAway = ''1 min''\<rparr>), (''queens_2'', \<lparr>minutesAway = ''2 min''\<rparr>),
       (''queens_3'', \<lparr>minutesAway = ''5 min''\<rparr>), (''brooklyn_1'', \<lparr>minutesAway = ''8 min''\<rparr>),
       (''brooklyn_2'', \<lparr>minutesAway = ''--''\<rparr>), (''brooklyn_3'', \<lparr>minutesAway = ''--''\<rparr>)]]"
proof -
  have f: "fetchFTrainArrivals (feed failingCycle) (nowSeconds failingCycle) =
             Inl (Error ''Failed to fetch MTA data: Network Error'')"
    by (simp add: failingCycle_def fetchFTrainArrivals_def)
  have 0: "requests (AutoUpdater sampleEnv failingCycle freshWorld) = []"
    by (simp add: AutoUpdater_def Let_def caughtCycle_requests
        cycle_requests_failed_fetch [OF f] freshWorld_def)
  have g: "fetchFTrainArrivals (feed goodCycle) (nowSeconds goodCycle) = 
     Inr \<lparr>queensBound = \<lparr>nextThreeTrains =
            [\<lparr>minutesAway = ''1 min'', arrivalTime = Num 1060\<rparr>,
             \<lparr>minutesAway = ''2 min'', arrivalTime = Num 1125\<rparr>,
             \<lparr>minutesAway = ''5 min'', arrivalTime = Num 1300\<rparr>]\<rparr>,
          brooklynBound = \<lparr>nextThreeTrains =
            [\<lparr>minutesAway = ''8 min'', arrivalTime = Num 1500\<rparr>]\<rparr>\<rparr>"
    by (simp add: goodCycle_def sample_selection)
  have armed: "updateInterval (AutoUpdater sampleEnv failingCycle freshWorld)"
    by (simp add: AutoUpdater_def Let_def)
  show ?thesis
    using cycle_requests [OF g, of sampleEnv "AutoUpdater sampleEnv failingCycle freshWorld" "[]"]
    by (simp add: runScheduler_def timerFire_def armed caughtCycle_requests 0 sample_format)
qed

lemma startup_caught:
  assumes "fetchAndPushToNoviSign env c0
             (consoleLog ''Interval: Every 30 seconds''
               (consoleLog ''Starting auto-update service...'' w)) = (Inl e, w1)"
  shows "AutoUpdater env c0 w =
           (consoleLog (''Initial update failed: '' @ errorMessage e) w1)\<lparr>updateInterval := True\<rparr>"
  using assms by (simp add: AutoUpdater_def caughtCycle_def Let_def)

lemma startup_completes:
  assumes f: "feed c0 = FeedDecoded ents"
    and p: "postOutcome env (length (requests w)) = Fulfilled d"
  shows "\<exists>td r w1. fetchFTrainArrivals (feed c0) (nowSeconds c0) = Inr td
           \<and> fetchAndPushToNoviSign env c0
                (consoleLog ''Interval: Every 30 seconds''
                  (consoleLog ''Starting auto-update service...'' w)) = (Inr r, w1)
           \<and> AutoUpdater env c0 w = w1\<lparr>updateInterval := True\<rparr>
           \<and> success r \<and> itemsUpdated r = 6
           \<and> (\<forall>con. map requestBody (requests (AutoUpdater env c0 w)) =
                 map requestBody (requests w) @ [fst (formatDataForNoviSign td con)])"
proof -
  let ?s = "consoleLog ''Interval: Every 30 seconds''
              (consoleLog ''Starting auto-update service...'' w)"
  obtain td where td: "fetchFTrainArrivals (feed c0) (nowSeconds c0) = Inr td"
    using f by (auto simp: fetchFTrainArrivals_def Let_def)
  have six: "length (fst (formatDataForNoviSign td [])) = 6"
    using td f selector_lengths [of ents "nowSeconds c0" td]
    by (intro format_six_items) simp_all
  have ps: "postOutcome env (length (requests ?s)) = Fulfilled d"
    using p by simp
  from cycle_completes [OF td ps, of "[]"]
  obtain w1 where w1: "fetchAndPushToNoviSign env c0 ?s =
        (Inr \<lparr>success = True, itemsUpdated = length (map fst (fst (formatDataForNoviSign td []))),
              timestamp = isoTime c0, response = d\<rparr>, w1)"
      and rq: "map requestBody (requests w1) =
                 map requestBody (requests ?s) @ [fst (formatDataForNoviSign td [])]"
    by blast
  have au: "AutoUpdater env c0 w = w1\<lparr>updateInterval := True\<rparr>"
    using w1 by (simp add: AutoUpdater_def caughtCycle_def Let_def)
  have rq': "map requestBody (requests (AutoUpdater env c0 w)) =
               map requestBody (requests w) @ [fst (formatDataForNoviSign td con)]" for con
    using rq format_console_indep [of td "[]" con] by (simp add: au)
  show ?thesis
    using td w1 au six rq' by auto
qed

lemma startup_feed_failure:
  assumes "feed c0 = FeedFailed msg"
  shows "fetchAndPushToNoviSign env c0 w =
           (Inl (Error (''Failed to fetch MTA data: '' @ msg)),
            consoleLog (''Workflow failed: Failed to fetch MTA data: '' @ msg)
              (consoleLog ''Fetching train data from MTA API...''
                (consoleLog (replicate 60 CHR ''='') (consoleLog ''Starting NoviSign Update'' w))))"
  using assms
  by (simp add: fetchAndPushToNoviSign_def fetchFTrainArrivals_def Let_def errorMessage_def)

lemma timer_cycle_isolation:
  "updateInterval (runScheduler env c0 cs w)
 \<and> (\<forall>e w1. fetchAndPushToNoviSign env c (runScheduler env c0 cs w) = (Inl e, w1) \<longrightarrow>
       runScheduler env c0 (cs @ [c]) w =
         consoleLog (''Auto-update failed: '' @ errorMessage e) w1)
 \<and> (\<forall>ents d. feed c = FeedDecoded ents \<and>
              postOutcome env (length (requests (runScheduler env c0 cs w))) = Fulfilled d \<longrightarrow>
      (\<exists>td r. fetchFTrainArrivals (feed c) (nowSeconds c) = Inr td
         \<and> fetchAndPushToNoviSign env c (runScheduler env c0 cs w) =
             (Inr r, runScheduler env c0 (cs @ [c]) w)
         \<and> success r \<and> itemsUpdated r = 6
         \<and> (\<forall>con. map requestBody (requests (runScheduler env c0 (cs @ [c]) w)) =
               map requestBody (requests (runScheduler env c0 cs w)) @
                 [fst (formatDataForNoviSign td con)])
         \<and> (\<exists>pre. consoleLines (runScheduler env c0 (cs @ [c]) w) =
               pre @ [''Workflow completed successfully!'', replicate 60 CHR ''=''])
         \<and> updateInterval (runScheduler env c0 (cs @ [c]) w)))"
proof (intro conjI allI impI)
  show "updateInterval (runScheduler env c0 cs w)" by (rule scheduler_armed)
next
  fix e w1
  assume "fetchAndPushToNoviSign env c (runScheduler env c0 cs w) = (Inl e, w1)"
  then show "runScheduler env c0 (cs @ [c]) w =
               consoleLog (''Auto-update failed: '' @ errorMessage e) w1"
    by (simp add: runScheduler_snoc timerFire_def caughtCycle_def scheduler_armed)
next
  fix ents d
  let ?w = "runScheduler env c0 cs w"
  assume a: "feed c = FeedDecoded ents \<and> postOutcome env (length (requests ?w)) = Fulfilled d"
  obtain td where td: "fetchFTrainArrivals (feed c) (nowSeconds c) = Inr td"
    using a by (auto simp: fetchFTrainArrivals_def Let_def)
  have six: "length (fst (formatDataForNoviSign td con)) = 6" for con
    using td a selector_lengths [of ents "nowSeconds c" td]
    by (intro format_six_items) simp_all
  from cycle_completes [OF td, of env ?w d "[]"] a
  obtain w' where w': "fetchAndPushToNoviSign env c ?w =
        (Inr \<lparr>success = True, itemsUpdated = length (map fst (fst (formatDataForNoviSign td []))),
              timestamp = isoTime c, response = d\<rparr>, w')"
      and rq: "map requestBody (requests w') =
                 map requestBody (requests ?w) @ [fst (formatDataForNoviSign td [])]"
      and con: "\<exists>pre. consoleLines w' =
                  pre @ [''Workflow completed successfully!'', replicate 60 CHR ''='']"
    by blast
  have fire: "runScheduler env c0 (cs @ [c]) w = w'"
    using w' by (simp add: runScheduler_snoc timerFire_def caughtCycle_def scheduler_armed)
  have rq': "map requestBody (requests w') =
               map requestBody (requests ?w) @ [fst (formatDataForNoviSign td con)]" for con
    using rq format_console_indep [of td "[]" con] by simp
  show "\<exists>td r. fetchFTrainArrivals (feed c) (nowSeconds c) = Inr td
         \<and> fetchAndPushToNoviSign env c ?w = (Inr r, runScheduler env c0 (cs @ [c]) w)
         \<and> success r \<and> itemsUpdated r = 6
         \<and> (\<forall>con. map requestBody (requests (runScheduler env c0 (cs @ [c]) w)) =
               map requestBody (requests ?w) @ [fst (formatDataForNoviSign td con)])
         \<and> (\<exists>pre. consoleLines (runScheduler env c0 (cs @ [c]) w) =
               pre @ [''Workflow completed successfully!'', replicate 60 CHR ''=''])
         \<and> updateInterval (runScheduler env c0 (cs @ [c]) w)"
    using td w' six [of "[]"] rq' con scheduler_armed [of env c0 "cs @ [c]" w]
    unfolding fire by auto
qed

text \<open>
  C7. An error thrown by a cycle is caught at the cycle boundary, in the start-up cycle as
  in a timer-fired one: the scheduler logs it (\<open>Initial update failed:\<close>, respectively
  \<open>Auto-update failed:\<close>) and goes on; after a failed start-up cycle the recurring timer
  is armed all the same. Whatever happened in the start-up cycle and in the timer-fired
  cycles so far, failures included, the timer is armed afterwards. A cycle whose feed
  decodes and whose POST request is fulfilled runs to completion, at start-up and after
  any earlier cycles: it selects, formats and publishes the six items of its own feed, and
  the timer stays armed.
\<close>

theorem cycle_isolation:
  "(\<forall>e w1. fetchAndPushToNoviSign env c0
               (consoleLog ''Interval: Every 30 seconds''
                 (consoleLog ''Starting auto-update service...'' w)) = (Inl e, w1) \<longrightarrow>
       AutoUpdater env c0 w =
         (consoleLog (''Initial update failed: '' @ errorMessage e) w1)\<lparr>updateInterval := True\<rparr>)
 \<and> (\<forall>msg. feed c0 = FeedFailed msg \<longrightarrow>
       fst (fetchAndPushToNoviSign env c0
              (consoleLog ''Interval: Every 30 seconds''
                (consoleLog ''Starting auto-update service...'' w))) =
         Inl (Error (''Failed to fetch MTA data: '' @ msg)))
 \<and> (\<forall>ents d. feed c0 = FeedDecoded ents \<and>
              postOutcome env (length (requests w)) = Fulfilled d \<longrightarrow>
      (\<exists>td r w1. fetchFTrainArrivals (feed c0) (nowSeconds c0) = Inr td
         \<and> fetchAndPushToNoviSign env c0
              (consoleLog ''Interval: Every 30 seconds''
                (consoleLog ''Starting auto-update service...'' w)) = (Inr r, w1)
         \<and> AutoUpdater env c0 w = w1\<lparr>updateInterval := True\<rparr>
         \<and> success r \<and> itemsUpdated r = 6
         \<and> (\<forall>con. map requestBody (requests (AutoUpdater env c0 w)) =
               map requestBody (requests w) @ [fst (formatDataForNoviSign td con)])))
 \<and> updateInterval (runScheduler env c0 cs w)
 \<and> (\<forall>e w1. fetchAndPushToNoviSign env c (runScheduler env c0 cs w) = (Inl e, w1) \<longrightarrow>
       runScheduler env c0 (cs @ [c]) w =
         consoleLog (''Auto-update failed: '' @ errorMessage e) w1)
 \<and> (\<forall>ents d. feed c = FeedDecoded ents \<and>
              postOutcome env (length (requests (runScheduler env c0 cs w))) = Fulfilled d \<longrightarrow>
      (\<exists>td r. fetchFTrainArrivals (feed c) (nowSeconds c) = Inr td
         \<and> fetchAndPushToNoviSign env c (runScheduler env c0 cs w) =
             (Inr r, runScheduler env c0 (cs @ [c]) w)
         \<and> success r \<and> itemsUpdated r = 6
         \<and> (\<forall>con. map requestBody (requests (runScheduler env c0 (cs @ [c]) w)) =
               map requestBody (requests (runScheduler env c0 cs w)) @
                 [fst (formatDataForNoviSign td con)])
         \<and> (\<exists>pre. consoleLines (runScheduler env c0 (cs @ [c]) w) =
               pre @ [''Workflow completed successfully!'', replicate 60 CHR ''=''])
         \<and> updateInterval (runScheduler env c0 (cs @ [c]) w)))"
proof (intro conjI)
  show "\<forall>e w1. fetchAndPushToNoviSign env c0
               (consoleLog ''Interval: Every 30 seconds''
                 (consoleLog ''Starting auto-update service...'' w)) = (Inl e, w1) \<longrightarrow>
       AutoUpdater env c0 w =
         (consoleLog (''Initial update failed: '' @ errorMessage e) w1)\<lparr>updateInterval := True\<rparr>"
    using startup_caught by blast
next
  show "\<forall>msg. feed c0 = FeedFailed msg \<longrightarrow>
       fst (fetchAndPushToNoviSign env c0
              (consoleLog ''Interval: Every 30 seconds''
                (consoleLog ''Starting auto-update service...'' w))) =
         Inl (Error (''Failed to fetch MTA data: '' @ msg))"
    by (simp add: startup_feed_failure)
next
  show "\<forall>ents d. feed c0 = FeedDecoded ents \<and>
              postOutcome env (length (requests w)) = Fulfilled d \<longrightarrow>
      (\<exists>td r w1. fetchFTrainArrivals (feed c0) (nowSeconds c0) = Inr td
         \<and> fetchAndPushToNoviSign env c0
              (consoleLog ''Interval: Every 30 seconds''
                (consoleLog ''Starting auto-update service...'' w)) = (Inr r, w1)
         \<and> AutoUpdater env c0 w = w1\<lparr>updateInterval := True\<rparr>
         \<and> success r \<and> itemsUpdated r = 6
         \<and> (\<forall>con. map requestBody (requests (AutoUpdater env c0 w)) =
               map requestBody (requests w) @ [fst (formatDataForNoviSign td con)]))"
    using startup_completes [of c0 _ env w] by blast
qed (use timer_cycle_isolation [of env c0 cs w c] in blast)+

theorem cycle_isolation_witness:
  "AutoUpdater sampleEnv failingCycle freshWorld =
     \<lparr>consoleLines =
        [''Starting auto-update service...'', ''Interval: Every 30 seconds'',
         ''Starting NoviSign Update'', replicate 60 CHR ''='',
         ''Fetching train data from MTA API...'',
         ''Workflow failed: Failed to fetch MTA data: Network Error'',
         ''Initial update failed: Failed to fetch MTA data: Network Error''],
      requests = [], updateInterval = True\<rparr>
 \<and> updateInterval (runScheduler sampleEnv failingCycle [goodCycle] freshWorld)
 \<and> length (requests (runScheduler sampleEnv failingCycle [goodCycle] freshWorld)) = 1
 \<and> map requestBody (requests (runScheduler sampleEnv failingCycle ([goodCycle] @ [goodCycle]) freshWorld)) =
     [[(''queens_1'', \<lparr>minutesAway = ''1 min''\<rparr>), (''queens_2'', \<lparr>minutesAway = ''2 min''\<rparr>),
       (''queens_3'', \<lparr>minutesAway = ''5 min''\<rparr>), (''brooklyn_1'', \<lparr>minutesAway = ''8 min''\<rparr>),
       (''brooklyn_2'', \<lparr>minutesAway = ''--''\<rparr>), (''brooklyn_3'', \<lparr>minutesAway = ''--''\<rparr>)],
      [(''queens_1'', \<lparr>minutesAway = ''1 min''\<rparr>), (''queens_2'', \<lparr>minutesAway = ''2 min''\<rparr>),
       (''queens_3'', \<lparr>minutesAway = ''5 min''\<rparr>), (''brooklyn_1'', \<lparr>minutesAway = ''8 min''\<rparr>),
       (''brooklyn_2'', \<lparr>minutesAway = ''--''\<rparr>), (''brooklyn_3'', \<lparr>minutesAway = ''--''\<rparr>)]]
 \<and> (\<exists>pre. consoleLines (runScheduler sampleEnv failingCycle ([goodCycle] @ [goodCycle]) freshWorld) =
        pre @ [''Workflow completed successfully!'', replicate 60 CHR ''=''])"
proof -
  let ?w = "runScheduler sampleEnv failingCycle [goodCycle] freshWorld"
  have n: "length (requests ?w) = 1"
    using arg_cong [OF sample_run_requests, of length] by simp
  have p: "postOutcome sampleEnv (length (requests ?w)) = Fulfilled ''ok''"
    by (simp only: n) (simp add: sampleEnv_def)
  have h: "feed goodCycle = FeedDecoded sampleFeed \<and>
           postOutcome sampleEnv (length (requests ?w)) = Fulfilled ''ok''"
    using p by (simp add: goodCycle_def)
  have g: "fetchFTrainArrivals (feed goodCycle) (nowSeconds goodCycle) = 
     Inr \<lparr>queensBound = \<lparr>nextThreeTrains =
            [\<lparr>minutesAway = ''1 min'', arrivalTime = Num 1060\<rparr>,
             \<lparr>minutesAway = ''2 min'', arrivalTime = Num 1125\<rparr>,
             \<lparr>minutesAway = ''5 min'', arrivalTime = Num 1300\<rparr>]\<rparr>,
          brooklynBound = \<lparr>nextThreeTrains =
            [\<lparr>minutesAway = ''8 min'', arrivalTime = Num 1500\<rparr>]\<rparr>\<rparr>"
    by (simp add: goodCycle_def sample_selection)
  have s: "fetchAndPushToNoviSign sampleEnv failingCycle
             (consoleLog ''Interval: Every 30 seconds''
               (consoleLog ''Starting auto-update service...'' freshWorld)) =
           (Inl (Error ''Failed to fetch MTA data: Network Error''),
            consoleLog ''Workflow failed: Failed to fetch MTA data: Network Error''
              (consoleLog ''Fetching train data from MTA API...''
                (consoleLog (replicate 60 CHR ''='')
                  (consoleLog ''Starting NoviSign Update''
                    (consoleLog ''Interval: Every 30 seconds''
                      (consoleLog ''Starting auto-update service...'' freshWorld))))))"
    using startup_feed_failure [of failingCycle "''Network Error''" sampleEnv]
    by (simp add: failingCycle_def)
  note inst = cycle_isolation [where env = sampleEnv and ?c0.0 = failingCycle
      and cs = "[goodCycle]" and w = freshWorld and c = goodCycle]
  have start: "AutoUpdater sampleEnv failingCycle freshWorld =
     \<lparr>consoleLines =
        [''Starting auto-update service...'', ''Interval: Every 30 seconds'',
         ''Starting NoviSign Update'', replicate 60 CHR ''='',
         ''Fetching train data from MTA API...'',
         ''Workflow failed: Failed to fetch MTA data: Network Error'',
         ''Initial update failed: Failed to fetch MTA data: Network Error''],
      requests = [], updateInterval = True\<rparr>"
    using inst s by (simp add: consoleLog_def freshWorld_def errorMessage_def)
  from inst h have rest:
    "updateInterval (runScheduler sampleEnv failingCycle [goodCycle] freshWorld)
     \<and> (\<forall>con. map requestBody
            (requests (runScheduler sampleEnv failingCycle ([goodCycle] @ [goodCycle]) freshWorld)) =
          map requestBody (requests (runScheduler sampleEnv failingCycle [goodCycle] freshWorld)) @
            [fst (formatDataForNoviSign
               \<lparr>queensBound = \<lparr>nextThreeTrains =
                  [\<lparr>minutesAway = ''1 min'', arrivalTime = Num 1060\<rparr>,
                   \<lparr>minutesAway = ''2 min'', arrivalTime = Num 1125\<rparr>,
                   \<lparr>minutesAway = ''5 min'', arrivalTime = Num 1300\<rparr>]\<rparr>,
                brooklynBound = \<lparr>nextThreeTrains =
                  [\<lparr>minutesAway = ''8 min'', arrivalTime = Num 1500\<rparr>]\<rparr>\<rparr> con)])
     \<and> (\<exists>pre. consoleLines (runScheduler sampleEnv failingCycle ([goodCycle] @ [goodCycle]) freshWorld) =
            pre @ [''Workflow completed successfully!'', replicate 60 CHR ''=''])"
    using g by (auto simp del: append.simps)
  show ?thesis
    using start rest n sample_run_requests sample_format by (simp del: append.simps)
qed

end
